theory Spec2Isabelle
  imports Complex_Main
begin

section \<open>Shape recognition: data model\<close>

text \<open>
  The module under study is \<^verbatim>\<open>src/app/script/bb/math/shape-recognition.ts\<close>, class
  \<^verbatim>\<open>ShapeRecognition\<close>. JavaScript numbers are modelled as reals: coordinates are
  taken to be finite (never NaN or an infinity) and arithmetic to be exact. The one place
  where the source produces \<^verbatim>\<open>Infinity\<close> on finite input, the bounding-box aspect of a
  flat box, has a constructor of its own. Time stamps (\<^verbatim>\<open>Date.now()\<close>) are naturals.
\<close>

record TVector2D =
  x :: real
  y :: real

record point = TVector2D +
  time :: nat

record params =
  x1 :: real
  y1 :: real
  x2 :: real
  y2 :: real

record recognized = params +
  type :: string

text \<open>
  What a call can end in besides a value. \<^verbatim>\<open>TypeError\<close>: a property is read from
  \<^verbatim>\<open>undefined\<close> (an index past the end of an array). \<^verbatim>\<open>UnknownShapeType\<close>: the
  \<^verbatim>\<open>throw new Error('Unknown shape type')\<close> of \<^verbatim>\<open>getShapeParams\<close>. The last two are not
  exceptions in JavaScript: the object returned holds \<^verbatim>\<open>undefined\<close> or \<^verbatim>\<open>NaN\<close> fields,
  which reals cannot express, so the model reports them as failures too.
\<close>

datatype failure = TypeError | UnknownShapeType | UndefinedFields | NaNFields

text \<open>The bounding-box aspect: \<^verbatim>\<open>height === 0 ? Infinity : width / height\<close>.\<close>

datatype aspect = Infinity | Finite real

fun aspect_gt :: "aspect \<Rightarrow> real \<Rightarrow> bool" where
  "aspect_gt Infinity c = True"
| "aspect_gt (Finite a) c = (a > c)"

fun aspect_lt :: "aspect \<Rightarrow> real \<Rightarrow> bool" where
  "aspect_lt Infinity c = False"
| "aspect_lt (Finite a) c = (a < c)"

text \<open>
  \<^verbatim>\<open>Math.min(...vs)\<close> and \<^verbatim>\<open>Math.max(...vs)\<close>. With no argument JavaScript answers
  \<^verbatim>\<open>Infinity\<close> and \<^verbatim>\<open>-Infinity\<close>; every call in the module sits behind a length guard of
  at least 10 points, so the equations for the empty list are never used by it.
\<close>

fun Math_min :: "real list \<Rightarrow> real" where
  "Math_min [] = 0"
| "Math_min (v # vs) = foldl min v vs"

fun Math_max :: "real list \<Rightarrow> real" where
  "Math_max [] = 0"
| "Math_max (v # vs) = foldl max v vs"

section \<open>Geometry heuristics\<close>

text \<open>The first lines of \<^verbatim>\<open>detectShape\<close> (and of \<^verbatim>\<open>recognizeShapeFromPoints\<close>).\<close>

definition bbox_aspect :: "point list \<Rightarrow> aspect" where
  "bbox_aspect points =
     (let xs = map x points;
          ys = map y points;
          minX = Math_min xs;
          maxX = Math_max xs;
          minY = Math_min ys;
          maxY = Math_max ys;
          width = maxX - minX;
          height = maxY - minY
      in if height = 0 then Infinity else Finite (width / height))"

text \<open>The three loops of \<^verbatim>\<open>isCircle\<close>, shared with \<^verbatim>\<open>getShapeParams\<close>.\<close>

definition dist_to :: "real \<Rightarrow> real \<Rightarrow> point \<Rightarrow> real" where
  "dist_to centerX centerY p = sqrt ((x p - centerX)\<^sup>2 + (y p - centerY)\<^sup>2)"

definition isCircle :: "point list \<Rightarrow> bool" where
  "isCircle points =
     (if length points < 20 then False
      else let xs = map x points;
               ys = map y points;
               minX = Math_min xs;
               maxX = Math_max xs;
               minY = Math_min ys;
               maxY = Math_max ys;
               width = maxX - minX;
               height = maxY - minY
           in if width < 10 \<or> height < 10 then False
              else let aspect = width / height
                   in if aspect < 0.7 \<or> aspect > 1.3 then False
                      else let sumX = foldl (\<lambda>s p. s + x p) 0 points;
                               sumY = foldl (\<lambda>s p. s + y p) 0 points;
                               centerX = sumX / real (length points);
                               centerY = sumY / real (length points);
                               sumDist = foldl (\<lambda>s p. s + dist_to centerX centerY p) 0 points;
                               avgRadius = sumDist / real (length points);
                               variance =
                                 foldl (\<lambda>s p. s + \<bar>dist_to centerX centerY p - avgRadius\<bar>) 0 points
                                 / real (length points)
                           in variance < avgRadius * 0.5)"

definition isRectangle :: "point list \<Rightarrow> bool" where
  "isRectangle points =
     (if length points < 12 then False
      else let xs = map x points;
               ys = map y points;
               minX = Math_min xs;
               maxX = Math_max xs;
               minY = Math_min ys;
               maxY = Math_max ys;
               width = maxX - minX;
               height = maxY - minY
           in if width < 15 \<or> height < 15 then False
              else let aspect = width / height
                   in if aspect > 5 \<or> aspect < 0.2 then False
                      else let cornerThreshold = max 8 (min width height * 0.25);
                               dxLeft = (\<lambda>p. \<bar>x p - minX\<bar>);
                               dxRight = (\<lambda>p. \<bar>x p - maxX\<bar>);
                               dyTop = (\<lambda>p. \<bar>y p - minY\<bar>);
                               dyBottom = (\<lambda>p. \<bar>y p - maxY\<bar>);
                               topLeft = list_ex (\<lambda>p. dxLeft p < cornerThreshold \<and> dyTop p < cornerThreshold) points;
                               topRight = list_ex (\<lambda>p. dxRight p < cornerThreshold \<and> dyTop p < cornerThreshold) points;
                               bottomLeft = list_ex (\<lambda>p. dxLeft p < cornerThreshold \<and> dyBottom p < cornerThreshold) points;
                               bottomRight = list_ex (\<lambda>p. dxRight p < cornerThreshold \<and> dyBottom p < cornerThreshold) points;
                               cornerCount = length (filter (\<lambda>v. v) [topLeft, topRight, bottomLeft, bottomRight])
                           in cornerCount \<ge> 3)"

text \<open>
  The deviation loop of \<^verbatim>\<open>isLine\<close> and \<^verbatim>\<open>isLineStatic\<close>: \<^verbatim>\<open>i\<close> runs from 1 to
  \<^verbatim>\<open>points.length - 2\<close>, that is over the points strictly between the first and the last.
  \<^verbatim>\<open>length || 1\<close> replaces a chord of length 0 by 1.
\<close>

definition totalDeviation :: "point \<Rightarrow> real \<Rightarrow> real \<Rightarrow> real \<Rightarrow> point list \<Rightarrow> real" where
  "totalDeviation start dx dy len points =
     foldl (\<lambda>s p. s + \<bar>dy * (x p - x start) - dx * (y p - y start)\<bar> / (if len = 0 then 1 else len))
       0 (butlast (tl points))"

text \<open>
  The instance method \<^verbatim>\<open>isLine\<close> has no guard: on an empty array \<^verbatim>\<open>start\<close> is
  \<^verbatim>\<open>undefined\<close> and reading \<^verbatim>\<open>end.x\<close> throws.
\<close>

definition isLine :: "point list \<Rightarrow> failure + bool" where
  "isLine points =
     (case points of
        [] \<Rightarrow> Inl TypeError
      | start # _ \<Rightarrow>
          let end = last points;
              dx = x end - x start;
              dy = y end - y start;
              len = sqrt (dx * dx + dy * dy);
              avgDeviation = totalDeviation start dx dy len points
                             / real_of_int (max 1 (int (length points) - 2))
          in Inr (avgDeviation < 7))"

definition isLineStatic :: "point list \<Rightarrow> bool" where
  "isLineStatic points =
     (if length points < 5 then False
      else let start = hd points;
               end = last points;
               dx = x end - x start;
               dy = y end - y start;
               len = sqrt (dx * dx + dy * dy)
           in if len < 15 then False
              else let avgDeviation = totalDeviation start dx dy len points
                                      / real_of_int (max 1 (int (length points) - 2))
                   in avgDeviation < 7)"

section \<open>Built-in classifier\<close>

text \<open>
  \<^verbatim>\<open>if (this.isLine(points)) return 'line'; return null;\<close> where an exception of
  \<^verbatim>\<open>isLine\<close> is passed on.
\<close>

definition line_or_null :: "failure + bool \<Rightarrow> failure + string option" where
  "line_or_null r = (case r of Inl e \<Rightarrow> Inl e | Inr b \<Rightarrow> Inr (if b then Some ''line'' else None))"

definition detectShape :: "point list \<Rightarrow> failure + string option" where
  "detectShape points =
     (if length points < 10 then Inr None
      else let aspect = bbox_aspect points
           in if aspect_gt aspect 5 \<or> aspect_lt aspect 0.2 then line_or_null (isLine points)
              else if aspect_gt aspect 0.7 \<and> aspect_lt aspect 1.3 \<and> isCircle points
                   then Inr (Some ''circle'')
              else if isRectangle points then Inr (Some ''rectangle'')
              else line_or_null (isLine points))"

text \<open>
  \<^verbatim>\<open>getShapeParams\<close>. The type tag is a string at run time, compared with \<^verbatim>\<open>===\<close>;
  \<^verbatim>\<open>sort((a, b) => a - b)\<close> is the ascending numeric sort.
\<close>

definition getShapeParams :: "string \<Rightarrow> point list \<Rightarrow> failure + params" where
  "getShapeParams t points =
     (if t = ''line'' then
        (case points of
           [] \<Rightarrow> Inl TypeError
         | p0 # _ \<Rightarrow> Inr \<lparr>x1 = x p0, y1 = y p0, x2 = x (last points), y2 = y (last points)\<rparr>)
      else if t = ''rectangle'' then
        (let xs = sort (map x points);
             ys = sort (map y points)
         in if points = [] then Inl UndefinedFields
            else Inr \<lparr>x1 = hd xs, y1 = hd ys, x2 = last xs, y2 = last ys\<rparr>)
      else if t = ''circle'' then
        (let sumX = foldl (\<lambda>s p. s + x p) 0 points;
             sumY = foldl (\<lambda>s p. s + y p) 0 points
         in if points = [] then Inl NaNFields
            else let centerX = sumX / real (length points);
                     centerY = sumY / real (length points);
                     sumDist = foldl (\<lambda>s p. s + dist_to centerX centerY p) 0 points;
                     radius = sumDist / real (length points)
                 in Inr \<lparr>x1 = centerX - radius, y1 = centerY - radius,
                         x2 = centerX + radius, y2 = centerY + radius\<rparr>)
      else Inl UnknownShapeType)"

section \<open>Recognition engine\<close>

text \<open>
  A call into code that is not the module's own (the external recognizer, found at run
  time) either throws or returns.
\<close>

datatype 'a outcome = Throws | Returns 'a

text \<open>
  \<^verbatim>\<open>externalRecognizer\<close>: both members are optional properties. \<^verbatim>\<open>recognize\<close> is
  declared to answer one of the three tags or \<^verbatim>\<open>null\<close>; nothing checks that at run time,
  so its answer is any string or \<^verbatim>\<open>null\<close>. A promise it returns is awaited; the model
  takes the await as one step (no event is handled in between).
\<close>

record adapter =
  recognize :: "(point list \<Rightarrow> string option outcome) option"
  getParams :: "(string \<Rightarrow> point list \<Rightarrow> params outcome) option"

text \<open>
  The fields of the instance. \<^verbatim>\<open>holdTimeout\<close> is the pending timer, as the time at which
  it is due, or \<^verbatim>\<open>None\<close> when no timer is pending (cleared, or already run).
  \<^verbatim>\<open>onShapeRecognized\<close> says whether a callback is registered, and \<^verbatim>\<open>notified\<close> lists the
  tags it has been called with, oldest first: the callback is the only effect of the class
  outside its own fields.
\<close>

record engine =
  points :: "point list"
  holdTimeout :: "nat option"
  isHolding :: bool
  recognizedShape :: "recognized option"
  externalRecognizer :: "adapter option"
  onShapeRecognized :: bool
  notified :: "string list"

definition holdThreshold :: nat where
  "holdThreshold = 500"

text \<open>The state a constructor call leaves, before the recognizer lookup has answered.\<close>

definition new_engine :: engine where
  "new_engine = \<lparr>points = [], holdTimeout = None, isHolding = False, recognizedShape = None,
                  externalRecognizer = None, onShapeRecognized = True, notified = []\<rparr>"

text \<open>
  Modelled from the spec: \<^verbatim>\<open>TDrawEvent\<close> is declared in \<^verbatim>\<open>klecks/kl-types\<close>, which is
  not part of the sources at hand. Section 6 gives it as
  \<^verbatim>\<open>{type: 'down'|'move'|'up', x?, y?, ...other fields ignored by the core}\<close>, and the
  header of the class names a fourth kind, \<^verbatim>\<open>'line'\<close>. The ignored fields are \<^typ>\<open>'a\<close>.
\<close>

datatype 'a TDrawEvent = Down real real 'a | Move real real 'a | Up 'a | LineEvent 'a

text \<open>
  Modelled from the spec: \<^verbatim>\<open>BB.copyObj\<close> lives in \<^verbatim>\<open>bb/bb\<close>, which is not part of the
  sources at hand. Section 4.5 has the event returned unmodified; a copy of a value is
  that value.
\<close>

definition copyObj :: "'a \<Rightarrow> 'a" where
  "copyObj v = v"

definition chainIn :: "nat \<Rightarrow> 'a TDrawEvent \<Rightarrow> engine \<Rightarrow> engine \<times> 'a TDrawEvent" where
  "chainIn now event0 s =
     (let event = copyObj event0
      in case event of
           Down ex ey _ \<Rightarrow>
             (s\<lparr>points := [\<lparr>x = ex, y = ey, time = now\<rparr>],
                isHolding := False,
                holdTimeout := Some (now + holdThreshold)\<rparr>, event)
         | Move ex ey _ \<Rightarrow>
             (let pushed = points s @ [\<lparr>x = ex, y = ey, time = now\<rparr>];
                  kept = (if length pushed > 200 then tl pushed else pushed);
                  s1 = s\<lparr>points := kept\<rparr>
              in (if \<not> isHolding s then s1\<lparr>holdTimeout := Some (now + holdThreshold)\<rparr> else s1,
                  event))
         | Up _ \<Rightarrow> (s\<lparr>holdTimeout := None, isHolding := False, points := []\<rparr>, event)
         | LineEvent _ \<Rightarrow> (s, event))"

text \<open>\<^verbatim>\<open>if (maybeShape)\<close>: \<^verbatim>\<open>null\<close> and the empty string are falsy.\<close>

fun truthy :: "string option \<Rightarrow> bool" where
  "truthy None = False"
| "truthy (Some t) = (t \<noteq> [])"

text \<open>
  \<^verbatim>\<open>this.recognizedShape = { type: shape, ...params }\<close> followed by the guarded call of
  the callback.
\<close>

definition store :: "string \<Rightarrow> params \<Rightarrow> engine \<Rightarrow> engine" where
  "store t p s =
     s\<lparr>recognizedShape := Some \<lparr>x1 = x1 p, y1 = y1 p, x2 = x2 p, y2 = y2 p, type = t\<rparr>,
       notified := (if onShapeRecognized s then notified s @ [t] else notified s)\<rparr>"

definition to_outcome :: "failure + 'a \<Rightarrow> 'a outcome" where
  "to_outcome r = (case r of Inl _ \<Rightarrow> Throws | Inr v \<Rightarrow> Returns v)"

text \<open>
  The \<^verbatim>\<open>try\<close> block of \<^verbatim>\<open>recognizeShape\<close>: \<^verbatim>\<open>Some\<close> is its \<^verbatim>\<open>return\<close>, \<^verbatim>\<open>None\<close>
  is every way of reaching the internal fallback (no adapter, a falsy answer, or an
  exception, which the \<^verbatim>\<open>catch\<close> swallows).
\<close>

definition external_attempt :: "engine \<Rightarrow> engine option" where
  "external_attempt s =
     (case externalRecognizer s of
        None \<Rightarrow> None
      | Some a \<Rightarrow>
          (case recognize a of
             None \<Rightarrow> None
           | Some rec \<Rightarrow>
               (case rec (points s) of
                  Throws \<Rightarrow> None
                | Returns maybeShape \<Rightarrow>
                    if truthy maybeShape then
                      (case (case getParams a of
                               Some g \<Rightarrow> g (the maybeShape) (points s)
                             | None \<Rightarrow> to_outcome (getShapeParams (the maybeShape) (points s))) of
                         Throws \<Rightarrow> None
                       | Returns p \<Rightarrow> Some (store (the maybeShape) p s))
                    else None)))"

definition internal_fallback :: "engine \<Rightarrow> failure + engine" where
  "internal_fallback s =
     (case detectShape (points s) of
        Inl e \<Rightarrow> Inl e
      | Inr shape \<Rightarrow>
          if truthy shape then
            (case getShapeParams (the shape) (points s) of
               Inl e \<Rightarrow> Inl e
             | Inr p \<Rightarrow> Inr (store (the shape) p s))
          else Inr (s\<lparr>recognizedShape := None\<rparr>))"

definition recognizeShape :: "engine \<Rightarrow> failure + engine" where
  "recognizeShape s =
     (if length (points s) < 10 then Inr s
      else case external_attempt s of
             Some s' \<Rightarrow> Inr s'
           | None \<Rightarrow> internal_fallback s)"

definition getRecognizedShape :: "engine \<Rightarrow> recognized option" where
  "getRecognizedShape s = recognizedShape s"

text \<open>
  The function given to \<^verbatim>\<open>setTimeout\<close>. \<^verbatim>\<open>void this.recognizeShape()\<close> drops the
  promise: were it rejected, the fields would stay as they were when the exception rose.
\<close>

definition holdCallback :: "engine \<Rightarrow> engine" where
  "holdCallback s =
     (let s1 = s\<lparr>isHolding := True\<rparr>
      in case recognizeShape s1 of Inr s2 \<Rightarrow> s2 | Inl _ \<Rightarrow> s1)"

text \<open>The timer runs its function once, when it is pending and due.\<close>

definition fires :: "nat \<Rightarrow> engine \<Rightarrow> bool" where
  "fires now s = (case holdTimeout s of None \<Rightarrow> False | Some due \<Rightarrow> due \<le> now)"

definition timerFires :: "nat \<Rightarrow> engine \<Rightarrow> engine" where
  "timerFires now s = (if fires now s then holdCallback (s\<lparr>holdTimeout := None\<rparr>) else s)"

text \<open>What the host's event loop hands to the instance: a draw event, or a timer tick.\<close>

datatype 'a input = Event nat "'a TDrawEvent" | Tick nat

fun step :: "'a input \<Rightarrow> engine \<Rightarrow> engine" where
  "step (Event now e) s = fst (chainIn now e s)"
| "step (Tick now) s = timerFires now s"

fun run :: "'a input list \<Rightarrow> engine \<Rightarrow> engine" where
  "run [] s = s"
| "run (i # is) s = run is (step i s)"

text \<open>The number of times the timer function, and with it \<^verbatim>\<open>recognizeShape\<close>, is run.\<close>

fun attempts :: "'a input list \<Rightarrow> engine \<Rightarrow> nat" where
  "attempts [] s = 0"
| "attempts (i # is) s =
     (case i of Event _ _ \<Rightarrow> 0 | Tick now \<Rightarrow> if fires now s then 1 else 0) + attempts is (step i s)"

section \<open>Console entry point\<close>

text \<open>
  \<^verbatim>\<open>recognizeShapeFromPoints\<close>. The two dynamic imports are the environment's: \<^verbatim>\<open>found\<close> is
  the \<^verbatim>\<open>detectShape\<close> export of the module they resolve to, if there is a module and it
  exports such a function. \<^verbatim>\<open>clock i\<close> is the reading of \<^verbatim>\<open>Date.now()\<close> taken for the
  \<^verbatim>\<open>i\<close>-th point.
\<close>

definition ptsWithTime :: "(nat \<Rightarrow> nat) \<Rightarrow> TVector2D list \<Rightarrow> point list" where
  "ptsWithTime clock pts =
     map (\<lambda>(i, p). \<lparr>x = x p, y = y p, time = clock i\<rparr>) (enumerate 0 pts)"

text \<open>
  The static helpers. \<^verbatim>\<open>isCircleStatic\<close> and \<^verbatim>\<open>isRectangleStatic\<close> repeat the instance
  methods statement by statement; \<^verbatim>\<open>isLineStatic\<close> is given with \<^verbatim>\<open>isLine\<close> above.
\<close>

definition isCircleStatic :: "point list \<Rightarrow> bool" where
  "isCircleStatic pts =
     (if length pts < 20 then False
      else let xs = map x pts;
               ys = map y pts;
               minX = Math_min xs;
               maxX = Math_max xs;
               minY = Math_min ys;
               maxY = Math_max ys;
               width = maxX - minX;
               height = maxY - minY
           in if width < 10 \<or> height < 10 then False
              else let aspect = width / height
                   in if aspect < 0.7 \<or> aspect > 1.3 then False
                      else let sumX = foldl (\<lambda>s p. s + x p) 0 pts;
                               sumY = foldl (\<lambda>s p. s + y p) 0 pts;
                               centerX = sumX / real (length pts);
                               centerY = sumY / real (length pts);
                               sumDist = foldl (\<lambda>s p. s + dist_to centerX centerY p) 0 pts;
                               avgRadius = sumDist / real (length pts);
                               variance =
                                 foldl (\<lambda>s p. s + \<bar>dist_to centerX centerY p - avgRadius\<bar>) 0 pts
                                 / real (length pts)
                           in variance < avgRadius * 0.5)"

definition isRectangleStatic :: "point list \<Rightarrow> bool" where
  "isRectangleStatic pts =
     (if length pts < 12 then False
      else let xs = map x pts;
               ys = map y pts;
               minX = Math_min xs;
               maxX = Math_max xs;
               minY = Math_min ys;
               maxY = Math_max ys;
               width = maxX - minX;
               height = maxY - minY
           in if width < 15 \<or> height < 15 then False
              else let aspect = width / height
                   in if aspect > 5 \<or> aspect < 0.2 then False
                      else let cornerThreshold = max 8 (min width height * 0.25);
                               dxLeft = (\<lambda>p. \<bar>x p - minX\<bar>);
                               dxRight = (\<lambda>p. \<bar>x p - maxX\<bar>);
                               dyTop = (\<lambda>p. \<bar>y p - minY\<bar>);
                               dyBottom = (\<lambda>p. \<bar>y p - maxY\<bar>);
                               topLeft = list_ex (\<lambda>p. dxLeft p < cornerThreshold \<and> dyTop p < cornerThreshold) pts;
                               topRight = list_ex (\<lambda>p. dxRight p < cornerThreshold \<and> dyTop p < cornerThreshold) pts;
                               bottomLeft = list_ex (\<lambda>p. dxLeft p < cornerThreshold \<and> dyBottom p < cornerThreshold) pts;
                               bottomRight = list_ex (\<lambda>p. dxRight p < cornerThreshold \<and> dyBottom p < cornerThreshold) pts;
                               cornerCount = length (filter (\<lambda>v. v) [topLeft, topRight, bottomLeft, bottomRight])
                           in cornerCount \<ge> 3)"

text \<open>The part of \<^verbatim>\<open>recognizeShapeFromPoints\<close> after the \<^verbatim>\<open>try\<close> block.\<close>

definition static_fallback :: "point list \<Rightarrow> string option" where
  "static_fallback pts =
     (let aspect = bbox_aspect pts
      in if aspect_gt aspect 5 \<or> aspect_lt aspect 0.2 then
           (if isLineStatic pts then Some ''line'' else None)
         else if aspect_gt aspect 0.7 \<and> aspect_lt aspect 1.3 \<and> isCircleStatic pts
              then Some ''circle''
         else if isRectangleStatic pts then Some ''rectangle''
         else if isLineStatic pts then Some ''line''
         else None)"

definition recognizeShapeFromPoints ::
  "(point list \<Rightarrow> string option outcome) option \<Rightarrow> (nat \<Rightarrow> nat) \<Rightarrow> TVector2D list \<Rightarrow> string option" where
  "recognizeShapeFromPoints found clock pts =
     (if length pts < 10 then None
      else case found of
             Some f \<Rightarrow>
               (case f (ptsWithTime clock pts) of
                  Returns r \<Rightarrow> r
                | Throws \<Rightarrow> static_fallback (ptsWithTime clock pts))
           | None \<Rightarrow> static_fallback (ptsWithTime clock pts))"

section \<open>The earlier revision\<close>

text \<open>
  \<^verbatim>\<open>src/unnamed/part_000\<close> is an earlier revision of the same class: no external
  recognizer, no aspect gate, its own thresholds, and a \<^verbatim>\<open>recognizeShape\<close> without an
  \<^verbatim>\<open>else\<close> branch. Its functions carry the suffix \<^verbatim>\<open>0\<close>; \<^verbatim>\<open>getShapeParams\<close> is the
  same text in both revisions.
\<close>

definition isCircle0 :: "point list \<Rightarrow> bool" where
  "isCircle0 pts =
     (if length pts < 20 then False
      else let sumX = foldl (\<lambda>s p. s + x p) 0 pts;
               sumY = foldl (\<lambda>s p. s + y p) 0 pts;
               centerX = sumX / real (length pts);
               centerY = sumY / real (length pts);
               sumDist = foldl (\<lambda>s p. s + dist_to centerX centerY p) 0 pts;
               avgRadius = sumDist / real (length pts);
               variance =
                 foldl (\<lambda>s p. s + \<bar>dist_to centerX centerY p - avgRadius\<bar>) 0 pts
                 / real (length pts)
           in variance < avgRadius * 0.3)"

definition isRectangle0 :: "point list \<Rightarrow> bool" where
  "isRectangle0 pts =
     (if length pts < 20 then False
      else let xs = sort (map x pts);
               ys = sort (map y pts);
               minX = hd xs;
               maxX = last xs;
               minY = hd ys;
               maxY = last ys;
               cornerCount =
                 length (filter (\<lambda>p. (\<bar>x p - minX\<bar> < 10 \<and> \<bar>y p - minY\<bar> < 10) \<or>
                                      (\<bar>x p - minX\<bar> < 10 \<and> \<bar>y p - maxY\<bar> < 10) \<or>
                                      (\<bar>x p - maxX\<bar> < 10 \<and> \<bar>y p - minY\<bar> < 10) \<or>
                                      (\<bar>x p - maxX\<bar> < 10 \<and> \<bar>y p - maxY\<bar> < 10)) pts)
           in cornerCount \<ge> 3)"

definition isLine0 :: "point list \<Rightarrow> bool" where
  "isLine0 pts =
     (if length pts < 10 then False
      else let start = hd pts;
               end = last pts;
               dx = x end - x start;
               dy = y end - y start;
               len = sqrt (dx * dx + dy * dy)
           in if len < 20 then False
              else let totalDeviation =
                         foldl (\<lambda>s p. s + \<bar>dy * (x p - x start) - dx * (y p - y start)\<bar> / len)
                           0 (butlast (tl pts));
                       avgDeviation = totalDeviation / real_of_int (int (length pts) - 2)
                   in avgDeviation < 5)"

definition detectShape0 :: "point list \<Rightarrow> string option" where
  "detectShape0 pts =
     (if length pts < 10 then None
      else if isCircle0 pts then Some ''circle''
      else if isRectangle0 pts then Some ''rectangle''
      else if isLine0 pts then Some ''line''
      else None)"

definition recognizeShape0 :: "engine \<Rightarrow> failure + engine" where
  "recognizeShape0 s =
     (if length (points s) < 10 then Inr s
      else let shape = detectShape0 (points s)
           in if truthy shape then
                (case getShapeParams (the shape) (points s) of
                   Inl e \<Rightarrow> Inl e
                 | Inr p \<Rightarrow> Inr (store (the shape) p s))
              else Inr s)"

section \<open>Notions used to state the properties\<close>

text \<open>
  Section 4.1 of the specification in its own words: the centroid is the arithmetic mean
  of the points, the average radius the mean of their Euclidean distances to it.
\<close>

definition mean :: "real list \<Rightarrow> real" where
  "mean vs = sum_list vs / real (length vs)"

definition centroid_x :: "point list \<Rightarrow> real" where
  "centroid_x pts = mean (map x pts)"

definition centroid_y :: "point list \<Rightarrow> real" where
  "centroid_y pts = mean (map y pts)"

definition avg_radius :: "point list \<Rightarrow> real" where
  "avg_radius pts =
     mean (map (\<lambda>p. sqrt ((x p - centroid_x pts)\<^sup>2 + (y p - centroid_y pts)\<^sup>2)) pts)"

text \<open>The chord: the distance from the first sample to the last.\<close>

definition chord :: "point list \<Rightarrow> real" where
  "chord pts = sqrt ((x (last pts) - x (hd pts))\<^sup>2 + (y (last pts) - y (hd pts))\<^sup>2)"

text \<open>The last \<open>n\<close> elements of a list, in their order.\<close>

definition most_recent :: "nat \<Rightarrow> 'b list \<Rightarrow> 'b list" where
  "most_recent n vs = drop (length vs - n) vs"

text \<open>The sample an input appends to the buffer, if any, and those of a run of inputs.\<close>

fun sample_of :: "'a input \<Rightarrow> point list" where
  "sample_of (Event now (Move ex ey _)) = [\<lparr>x = ex, y = ey, time = now\<rparr>]"
| "sample_of _ = []"

definition samples :: "'a input list \<Rightarrow> point list" where
  "samples is = concat (map sample_of is)"

text \<open>
  The inputs that neither begin nor end a stroke: moves, timer ticks, and events of a kind
  the class ignores.
\<close>

fun within_stroke :: "'a input \<Rightarrow> bool" where
  "within_stroke (Event _ (Down _ _ _)) = False"
| "within_stroke (Event _ (Up _)) = False"
| "within_stroke _ = True"

fun is_tick :: "'a input \<Rightarrow> bool" where
  "is_tick (Tick _) = True"
| "is_tick _ = False"

fun is_down :: "'a input \<Rightarrow> bool" where
  "is_down (Event _ (Down _ _ _)) = True"
| "is_down _ = False"

text \<open>The state \<^verbatim>\<open>Holding\<close> of section 4.4: the timer has run and none is pending.\<close>

definition holding :: "engine \<Rightarrow> bool" where
  "holding s = (isHolding s \<and> holdTimeout s = None)"

subsection \<open>Sample inputs\<close>

definition pt :: "real \<Rightarrow> real \<Rightarrow> point" where
  "pt a b = \<lparr>x = a, y = b, time = 0\<rparr>"

text \<open>Ten samples: from (0, 0) to (100, 0) by way of eight samples at (50, 10).\<close>

definition bump :: "point list" where
  "bump = [pt 0 0, pt 50 10, pt 50 10, pt 50 10, pt 50 10,
           pt 50 10, pt 50 10, pt 50 10, pt 50 10, pt 100 0]"

text \<open>Ten samples one unit apart on a horizontal: a stroke 9 units long.\<close>

definition flick :: "point list" where
  "flick = [pt 0 0, pt 1 0, pt 2 0, pt 3 0, pt 4 0, pt 5 0, pt 6 0, pt 7 0, pt 8 0, pt 9 0]"

text \<open>Ten samples ten units apart on a horizontal.\<close>

definition hline :: "point list" where
  "hline = [pt 0 0, pt 10 0, pt 20 0, pt 30 0, pt 40 0,
            pt 50 0, pt 60 0, pt 70 0, pt 80 0, pt 90 0]"

text \<open>Ten samples ten units apart on a vertical.\<close>

definition vline :: "point list" where
  "vline = [pt 0 0, pt 0 10, pt 0 20, pt 0 30, pt 0 40,
            pt 0 50, pt 0 60, pt 0 70, pt 0 80, pt 0 90]"

text \<open>The pointer at rest: the same position ten times, as the console would pass it.\<close>

definition still :: "TVector2D list" where
  "still = [\<lparr>x = 0, y = 0\<rparr>, \<lparr>x = 0, y = 0\<rparr>, \<lparr>x = 0, y = 0\<rparr>, \<lparr>x = 0, y = 0\<rparr>, \<lparr>x = 0, y = 0\<rparr>,
            \<lparr>x = 0, y = 0\<rparr>, \<lparr>x = 0, y = 0\<rparr>, \<lparr>x = 0, y = 0\<rparr>, \<lparr>x = 0, y = 0\<rparr>, \<lparr>x = 0, y = 0\<rparr>]"

definition clock0 :: "nat \<Rightarrow> nat" where
  "clock0 i = 0"

definition pair :: "point list" where
  "pair = [pt 3 4, pt (- 3) (- 4)]"

text \<open>An external recognizer that answers \<^verbatim>\<open>null\<close> and has no \<^verbatim>\<open>getParams\<close>.\<close>

definition answers_null :: "point list \<Rightarrow> string option outcome" where
  "answers_null pts = Returns None"

definition null_adapter :: adapter where
  "null_adapter = \<lparr>recognize = Some answers_null, getParams = None\<rparr>"

text \<open>
  An instance that has recognized a line before, and whose buffer now holds \<open>bump\<close>.
\<close>

definition earlier_line :: recognized where
  "earlier_line = \<lparr>x1 = 0, y1 = 0, x2 = 100, y2 = 0, type = ''line''\<rparr>"

definition held_bump :: engine where
  "held_bump = \<lparr>points = bump, holdTimeout = None, isHolding = True,
                 recognizedShape = Some earlier_line, externalRecognizer = Some null_adapter,
                 onShapeRecognized = True, notified = [''line'']\<rparr>"

text \<open>A stroke of 201 moves, the \<open>n\<close>-th at time \<open>n\<close> and position (\<open>n\<close>, 0).\<close>

definition sample_at :: "nat \<Rightarrow> point" where
  "sample_at n = \<lparr>x = real n, y = 0, time = n\<rparr>"

definition move_at :: "nat \<Rightarrow> unit input" where
  "move_at n = Event n (Move (real n) 0 ())"

definition long_moves :: "unit input list" where
  "long_moves = map move_at [1..<202]"

text \<open>An instance in the state \<^verbatim>\<open>Holding\<close> with one sample, and two moves around a tick.\<close>

definition parked :: engine where
  "parked = new_engine\<lparr>points := [pt 1 1], isHolding := True\<rparr>"

definition nudges :: "unit input list" where
  "nudges = [Event 7 (Move 2 2 ()), Tick 9999, Event 8 (Move 3 3 ())]"

definition late_ticks :: "unit input list" where
  "late_ticks = [Tick 20000, Tick 30000]"

text \<open>
  A stroke along a horizontal, ten units a sample, held until the timer runs at time 600;
  then the up event and, with no down event, the same ten positions again as moves, held
  until time 2000.
\<close>

definition line_moves :: "unit input list" where
  "line_moves =
     [Event 1 (Move 10 0 ()), Event 2 (Move 20 0 ()), Event 3 (Move 30 0 ()),
      Event 4 (Move 40 0 ()), Event 5 (Move 50 0 ()), Event 6 (Move 60 0 ()),
      Event 7 (Move 70 0 ()), Event 8 (Move 80 0 ()), Event 9 (Move 90 0 ())]"

definition line_stroke :: "unit input list" where
  "line_stroke = Event 0 (Down 0 0 ()) # line_moves @ [Tick 600]"

definition late_moves :: "unit input list" where
  "late_moves =
     [Event 701 (Move 0 0 ()), Event 702 (Move 10 0 ()), Event 703 (Move 20 0 ()),
      Event 704 (Move 30 0 ()), Event 705 (Move 40 0 ()), Event 706 (Move 50 0 ()),
      Event 707 (Move 60 0 ()), Event 708 (Move 70 0 ()), Event 709 (Move 80 0 ()),
      Event 710 (Move 90 0 ())]"

definition after_up :: "unit input list" where
  "after_up = Event 700 (Up ()) # late_moves @ [Tick 2000]"

text \<open>
  The ten samples of either run, the first taken at time \<open>t\<close>, and the states the runs
  pass through.
\<close>

definition stamped :: "nat \<Rightarrow> point list" where
  "stamped t = [\<lparr>x = 0, y = 0, time = t\<rparr>, \<lparr>x = 10, y = 0, time = t + 1\<rparr>,
     \<lparr>x = 20, y = 0, time = t + 2\<rparr>, \<lparr>x = 30, y = 0, time = t + 3\<rparr>,
     \<lparr>x = 40, y = 0, time = t + 4\<rparr>, \<lparr>x = 50, y = 0, time = t + 5\<rparr>,
     \<lparr>x = 60, y = 0, time = t + 6\<rparr>, \<lparr>x = 70, y = 0, time = t + 7\<rparr>,
     \<lparr>x = 80, y = 0, time = t + 8\<rparr>, \<lparr>x = 90, y = 0, time = t + 9\<rparr>]"

definition line_0_90 :: recognized where
  "line_0_90 = \<lparr>x1 = 0, y1 = 0, x2 = 90, y2 = 0, type = ''line''\<rparr>"

definition held_line :: engine where
  "held_line = \<lparr>points = stamped 0, holdTimeout = None, isHolding = True,
     recognizedShape = Some line_0_90, externalRecognizer = None,
     onShapeRecognized = True, notified = [''line'']\<rparr>"

definition armed_line :: engine where
  "armed_line = \<lparr>points = stamped 0, holdTimeout = Some 509, isHolding = False,
     recognizedShape = None, externalRecognizer = None,
     onShapeRecognized = True, notified = []\<rparr>"

definition rearmed_line :: engine where
  "rearmed_line = \<lparr>points = stamped 701, holdTimeout = Some 1210, isHolding = False,
     recognizedShape = Some line_0_90, externalRecognizer = None,
     onShapeRecognized = True, notified = [''line'']\<rparr>"

text \<open>An instance whose timer is pending, due at time 500.\<close>

definition armed :: engine where
  "armed = new_engine\<lparr>points := [pt 1 1], holdTimeout := Some 500\<rparr>"

section \<open>Auxiliary facts\<close>

lemma foldl_add_sum: "foldl (\<lambda>s p. s + f p) a ps = a + sum_list (map f ps)"
  for a :: real
  by (induction ps arbitrary: a) simp_all

lemma sorted_hd_Min: "sorted vs \<Longrightarrow> vs \<noteq> [] \<Longrightarrow> hd vs = Min (set vs)"
  for vs :: "real list"
  by (cases vs) (auto intro!: Min_eqI [symmetric])

lemma sorted_last_Max: "sorted vs \<Longrightarrow> vs \<noteq> [] \<Longrightarrow> last vs = Max (set vs)"
  for vs :: "real list"
proof (induction vs)
  case Nil
  then show ?case by simp
next
  case (Cons v vs)
  show ?case
  proof (cases "vs = []")
    case True
    then show ?thesis by simp
  next
    case False
    with Cons have "last vs = Max (set vs)" by simp
    moreover from Cons.prems have "\<forall>w\<in>set vs. v \<le> w" by simp
    then have "v \<le> Max (set vs)" using False
      by (meson List.finite_set Max_in set_empty)
    ultimately show ?thesis using False by (simp add: max_absorb2)
  qed
qed

lemma hd_sort_Min: "vs \<noteq> [] \<Longrightarrow> hd (sort vs) = Min (set vs)"
  for vs :: "real list"
proof -
  assume "vs \<noteq> []"
  then have "sort vs \<noteq> []" by (metis length_0_conv length_sort)
  then show ?thesis using sorted_hd_Min [of "sort vs"] by simp
qed

lemma last_sort_Max: "vs \<noteq> [] \<Longrightarrow> last (sort vs) = Max (set vs)"
  for vs :: "real list"
proof -
  assume "vs \<noteq> []"
  then have "sort vs \<noteq> []" by (metis length_0_conv length_sort)
  then show ?thesis using sorted_last_Max [of "sort vs"] by simp
qed

lemma getShapeParams_line:
  "pts \<noteq> [] \<Longrightarrow> getShapeParams ''line'' pts =
     Inr \<lparr>x1 = x (hd pts), y1 = y (hd pts), x2 = x (last pts), y2 = y (last pts)\<rparr>"
  by (cases pts) (simp_all add: getShapeParams_def)

lemma getShapeParams_rectangle:
  "pts \<noteq> [] \<Longrightarrow> getShapeParams ''rectangle'' pts =
     Inr \<lparr>x1 = Min (x ` set pts), y1 = Min (y ` set pts),
          x2 = Max (x ` set pts), y2 = Max (y ` set pts)\<rparr>"
  by (simp add: getShapeParams_def hd_sort_Min last_sort_Max)

lemma getShapeParams_circle:
  "pts \<noteq> [] \<Longrightarrow> getShapeParams ''circle'' pts =
     Inr \<lparr>x1 = centroid_x pts - avg_radius pts, y1 = centroid_y pts - avg_radius pts,
          x2 = centroid_x pts + avg_radius pts, y2 = centroid_y pts + avg_radius pts\<rparr>"
  by (simp add: getShapeParams_def foldl_add_sum mean_def dist_to_def Let_def
        centroid_x_def centroid_y_def avg_radius_def)

lemma isLine_nonempty: "pts \<noteq> [] \<Longrightarrow> \<exists>b. isLine pts = Inr b"
  by (cases pts) (simp_all add: isLine_def Let_def)

lemma detectShape_total: "\<exists>r. detectShape pts = Inr r"
proof (cases "length pts < 10")
  case True
  then show ?thesis by (simp add: detectShape_def)
next
  case False
  then have "pts \<noteq> []" by auto
  then obtain b where "isLine pts = Inr b" using isLine_nonempty by blast
  then show ?thesis by (simp add: detectShape_def Let_def line_or_null_def)
qed

lemma detectShape_Some:
  assumes "detectShape pts = Inr (Some t)"
  shows "t \<in> {''circle'', ''rectangle'', ''line''} \<and> 10 \<le> length pts"
proof -
  from assms have len: "10 \<le> length pts"
    by (auto simp: detectShape_def split: if_splits)
  then have "pts \<noteq> []" by auto
  then obtain b where "isLine pts = Inr b" using isLine_nonempty by blast
  with assms show ?thesis using len
    by (auto simp: detectShape_def Let_def line_or_null_def split: if_splits)
qed

lemma getShapeParams_ok:
  "t \<in> {''circle'', ''rectangle'', ''line''} \<Longrightarrow> pts \<noteq> [] \<Longrightarrow> \<exists>p. getShapeParams t pts = Inr p"
  by (cases pts) (auto simp: getShapeParams_def Let_def)

subsection \<open>What a timer run and a draw event leave unchanged\<close>

lemma store_fields:
  "points (store t p s) = points s" "isHolding (store t p s) = isHolding s"
  "holdTimeout (store t p s) = holdTimeout s"
  by (simp_all add: store_def)

lemma external_attempt_fields:
  "external_attempt s = Some s' \<Longrightarrow>
     points s' = points s \<and> isHolding s' = isHolding s \<and> holdTimeout s' = holdTimeout s"
  by (auto simp: external_attempt_def store_fields split: option.splits outcome.splits if_splits)

lemma internal_fallback_fields:
  "internal_fallback s = Inr s' \<Longrightarrow>
     points s' = points s \<and> isHolding s' = isHolding s \<and> holdTimeout s' = holdTimeout s"
  by (auto simp: internal_fallback_def store_fields split: sum.splits if_splits)

lemma recognizeShape_fields:
  "recognizeShape s = Inr s' \<Longrightarrow>
     points s' = points s \<and> isHolding s' = isHolding s \<and> holdTimeout s' = holdTimeout s"
  by (auto simp: recognizeShape_def split: if_splits option.splits
           dest: external_attempt_fields internal_fallback_fields)

lemma holdCallback_fields:
  "points (holdCallback s) = points s" "isHolding (holdCallback s) = True"
  "holdTimeout (holdCallback s) = holdTimeout s"
  by (auto simp: holdCallback_def Let_def split: sum.splits dest: recognizeShape_fields)

lemma timerFires_points: "points (timerFires now s) = points s"
  by (simp add: timerFires_def holdCallback_fields)

lemma most_recent_push:
  assumes "length b \<le> n"
  shows "(if length (b @ [p]) > n then tl (b @ [p]) else b @ [p]) = most_recent n (b @ [p])"
proof (cases "length (b @ [p]) > n")
  case True
  with assms have "length (b @ [p]) - n = Suc 0" by simp
  moreover have "drop (Suc 0) (b @ [p]) = tl (b @ [p])" by (simp only: drop_Suc drop_0)
  ultimately have "most_recent n (b @ [p]) = tl (b @ [p])" by (simp only: most_recent_def)
  with True show ?thesis by simp
next
  case False
  then show ?thesis by (simp add: most_recent_def)
qed

lemma most_recent_length: "length (most_recent n vs) \<le> n"
  by (simp add: most_recent_def)

lemma most_recent_id: "length vs \<le> n \<Longrightarrow> most_recent n vs = vs"
  by (simp add: most_recent_def)

lemma most_recent_append:
  "most_recent n (most_recent n vs @ ws) = most_recent n (vs @ ws)"
proof (cases "length vs \<le> n")
  case True
  then show ?thesis by (simp add: most_recent_def)
next
  case False
  define k where "k = length vs - n"
  from False have k: "length vs = k + n" by (simp add: k_def)
  have "most_recent n (drop k vs @ ws) = drop (length ws) (drop k vs @ ws)"
    by (simp add: most_recent_def k)
  also have "\<dots> = drop (length ws) (drop k (vs @ ws))" by (simp add: k)
  also have "\<dots> = drop (k + length ws) (vs @ ws)" by (simp only: drop_drop add.commute)
  also have "\<dots> = most_recent n (vs @ ws)" by (simp add: most_recent_def k)
  finally show ?thesis by (simp add: most_recent_def [of n vs] k_def)
qed

lemma step_points:
  assumes "within_stroke i" "length (points s) \<le> 200"
  shows "points (step i s) = most_recent 200 (points s @ sample_of i)"
proof (cases i)
  case (Event now e)
  with assms show ?thesis
    using most_recent_push [of "points s" 200]
    by (cases e) (auto simp: chainIn_def copyObj_def Let_def most_recent_id)
next
  case (Tick now)
  with assms show ?thesis by (simp add: timerFires_points most_recent_id)
qed

lemma run_points:
  assumes "\<forall>i\<in>set is. within_stroke i" "length (points s) \<le> 200"
  shows "points (run is s) = most_recent 200 (points s @ samples is)"
  using assms
proof (induction "is" arbitrary: s)
  case Nil
  then show ?case by (simp add: samples_def most_recent_id)
next
  case (Cons i "is")
  have step: "points (step i s) = most_recent 200 (points s @ sample_of i)"
    using Cons.prems by (simp add: step_points)
  then have "length (points (step i s)) \<le> 200" by (simp add: most_recent_length)
  with Cons have "points (run is (step i s)) = most_recent 200 (points (step i s) @ samples is)"
    by simp
  then show ?case by (simp add: step most_recent_append samples_def)
qed

lemma step_bounded: "length (points s) \<le> 200 \<Longrightarrow> length (points (step i s)) \<le> 200"
proof (cases i)
  case (Event now e)
  assume "length (points s) \<le> 200"
  with Event show ?thesis
    by (cases e) (auto simp: chainIn_def copyObj_def Let_def)
next
  case (Tick now)
  assume "length (points s) \<le> 200"
  with Tick show ?thesis by (simp add: timerFires_points)
qed

lemma run_bounded: "length (points s) \<le> 200 \<Longrightarrow> length (points (run is s)) \<le> 200"
  by (induction "is" arbitrary: s) (simp_all add: step_bounded)

lemma holding_no_fire: "holding s \<Longrightarrow> \<not> fires now s"
  by (simp add: holding_def fires_def)

lemma timerFires_holding: "fires now s \<Longrightarrow> holding (timerFires now s)"
  by (simp add: timerFires_def holding_def holdCallback_fields)

lemma step_holding:
  assumes "within_stroke i" "holding s"
  shows "holding (step i s) \<and> recognizedShape (step i s) = recognizedShape s
         \<and> notified (step i s) = notified s"
proof (cases i)
  case (Event now e)
  with assms show ?thesis
    by (cases e) (auto simp: chainIn_def copyObj_def Let_def holding_def)
next
  case (Tick now)
  with assms show ?thesis by (simp add: timerFires_def holding_no_fire)
qed

lemma run_holding:
  assumes "\<forall>i\<in>set is. within_stroke i" "holding s"
  shows "holding (run is s) \<and> recognizedShape (run is s) = recognizedShape s
         \<and> notified (run is s) = notified s \<and> attempts is s = 0"
  using assms
proof (induction "is" arbitrary: s)
  case Nil
  then show ?case by simp
next
  case (Cons i "is")
  then have h: "holding (step i s) \<and> recognizedShape (step i s) = recognizedShape s
         \<and> notified (step i s) = notified s"
    by (simp add: step_holding)
  with Cons have "holding (run is (step i s)) \<and> recognizedShape (run is (step i s)) = recognizedShape (step i s)
         \<and> notified (run is (step i s)) = notified (step i s) \<and> attempts is (step i s) = 0"
    by simp
  with h Cons.prems show ?case
    by (cases i) (simp_all add: holding_no_fire)
qed

lemma attempts_le_one:
  assumes "\<forall>i\<in>set is. within_stroke i"
  shows "attempts is s \<le> 1"
  using assms
proof (induction "is" arbitrary: s)
  case Nil
  then show ?case by simp
next
  case (Cons i "is")
  show ?case
  proof (cases i)
    case (Event now e)
    with Cons show ?thesis by simp
  next
    case (Tick now)
    show ?thesis
    proof (cases "fires now s")
      case True
      then have "holding (step i s)" using Tick by (simp add: timerFires_holding)
      with Cons.prems have "attempts is (step i s) = 0"
        using run_holding [of "is" "step i s"] by simp
      with Tick True show ?thesis by simp
    next
      case False
      with Tick Cons show ?thesis by simp
    qed
  qed
qed

lemma run_append: "run (is @ js) s = run js (run is s)"
  by (induction "is" arbitrary: s) simp_all

lemma attempts_append: "attempts (is @ js) s = attempts is s + attempts js (run is s)"
  by (induction "is" arbitrary: s) simp_all

lemma idle_ticks:
  assumes "\<forall>i\<in>set ts. is_tick i" "holdTimeout s = None"
  shows "attempts ts s = 0 \<and> run ts s = s"
  using assms
proof (induction ts arbitrary: s)
  case Nil
  then show ?case by simp
next
  case (Cons i ts)
  then obtain now where i: "i = Tick now" by (cases i) auto
  with Cons.prems have "\<not> fires now s" by (simp add: fires_def)
  with i have "step i s = s" by (simp add: timerFires_def)
  with Cons i \<open>\<not> fires now s\<close> show ?case by simp
qed

lemma up_idle: "holdTimeout (step (Event now (Up a)) s) = None"
  by (simp add: chainIn_def copyObj_def)

subsection \<open>The sample inputs, evaluated\<close>

lemma bbox_aspect_bump: "bbox_aspect bump = Finite 10"
  by (simp add: bbox_aspect_def bump_def pt_def Let_def)

lemma isLine_bump: "isLine bump = Inr False"
  by (simp add: isLine_def totalDeviation_def bump_def pt_def Let_def)

lemma detectShape_bump: "detectShape bump = Inr None"
  by (simp add: detectShape_def bbox_aspect_bump isLine_bump line_or_null_def)

lemma detectShape0_bump: "detectShape0 bump = None"
  by (simp add: detectShape0_def isCircle0_def isRectangle0_def isLine0_def bump_def pt_def Let_def)

lemma external_attempt_held_bump: "external_attempt held_bump = None"
  by (simp add: external_attempt_def held_bump_def null_adapter_def answers_null_def)

lemma bbox_aspect_vline: "bbox_aspect vline = Finite 0"
  by (simp add: bbox_aspect_def vline_def pt_def Let_def)

lemma isLine_vline: "isLine vline = Inr True"
  by (simp add: isLine_def totalDeviation_def vline_def pt_def Let_def)

lemma detectShape_hline: "detectShape hline = Inr (Some ''line'')"
  by (simp add: detectShape_def bbox_aspect_def isLine_def totalDeviation_def line_or_null_def
        hline_def pt_def Let_def)

lemma samples_long_moves: "samples long_moves = map sample_at [1..<202]"
proof -
  have "concat (map sample_of (map move_at ns)) = map sample_at ns" for ns
    by (induction ns) (simp_all add: move_at_def sample_at_def)
  then show ?thesis by (simp add: samples_def long_moves_def)
qed

lemma tail_long:
  "most_recent 200 (\<lparr>x = 5, y = 5, time = 0\<rparr> # map sample_at [1..<202]) = map sample_at [2..<202]"
proof -
  have l: "length (\<lparr>x = 5, y = 5, time = 0\<rparr> # map sample_at [1..<202]) - 200 = Suc (Suc 0)"
    by (simp del: upt_rec_numeral)
  have "drop (Suc 0) [1..<202] = [1 + Suc 0..<202]" by (simp only: drop_upt)
  moreover have "1 + Suc 0 = (2::nat)" by simp
  ultimately have d: "drop (Suc 0) [1..<202] = [2..<202]" by (simp only:)
  show ?thesis by (simp only: most_recent_def l drop_Suc_Cons drop_map d)
qed

lemma detectShape_stamped: "detectShape (stamped t) = Inr (Some ''line'')"
  by (simp add: detectShape_def bbox_aspect_def isLine_def totalDeviation_def line_or_null_def
        stamped_def Let_def)

lemma getShapeParams_stamped:
  "getShapeParams ''line'' (stamped t) = Inr \<lparr>x1 = 0, y1 = 0, x2 = 90, y2 = 0\<rparr>"
  by (simp add: getShapeParams_def stamped_def)

lemma recognizeShape_stamped:
  "points s = stamped t \<Longrightarrow> externalRecognizer s = None \<Longrightarrow>
     recognizeShape s = Inr (store ''line'' \<lparr>x1 = 0, y1 = 0, x2 = 90, y2 = 0\<rparr> s)"
  by (simp add: recognizeShape_def external_attempt_def internal_fallback_def
        detectShape_stamped getShapeParams_stamped)
     (simp add: stamped_def)

lemma run_line_moves: "run (Event 0 (Down 0 0 ()) # line_moves) new_engine = armed_line"
  by (simp add: line_moves_def new_engine_def chainIn_def copyObj_def Let_def
        holdThreshold_def stamped_def armed_line_def)

lemma run_snoc_tick: "run (is @ [Tick now]) s = timerFires now (run is s)"
  by (simp add: run_append)

lemma attempts_snoc_tick:
  "attempts (is @ [Tick now]) s = attempts is s + (if fires now (run is s) then 1 else 0)"
  by (simp add: attempts_append)

lemma fires_armed_line: "fires 600 armed_line"
  by (simp add: fires_def armed_line_def)

lemma timerFires_armed_line: "timerFires 600 armed_line = held_line"
  by (simp add: timerFires_def fires_def holdCallback_def Let_def armed_line_def
        recognizeShape_stamped [of _ 0] store_def held_line_def line_0_90_def)

lemma line_stroke_snoc: "line_stroke = (Event 0 (Down 0 0 ()) # line_moves) @ [Tick 600]"
  by (simp add: line_stroke_def)

lemma run_line_stroke: "run line_stroke new_engine = held_line"
  by (simp only: line_stroke_snoc run_snoc_tick run_line_moves timerFires_armed_line)

lemma attempts_line_stroke: "attempts line_stroke new_engine = 1"
proof -
  have "attempts (Event 0 (Down 0 0 ()) # line_moves) new_engine = 0"
    by (simp add: line_moves_def)
  then have "attempts line_stroke new_engine = 0 + (if fires 600 armed_line then 1 else 0)"
    by (simp only: line_stroke_snoc attempts_snoc_tick run_line_moves)
  then show ?thesis by (simp add: fires_armed_line)
qed

lemma rearmed: "holdTimeout (run (take 2 after_up) held_line) = Some 1201"
  by (simp add: after_up_def late_moves_def held_line_def chainIn_def copyObj_def Let_def
        holdThreshold_def)

lemma run_late_moves: "run (Event 700 (Up ()) # late_moves) held_line = rearmed_line"
  by (simp add: late_moves_def held_line_def chainIn_def copyObj_def Let_def holdThreshold_def
        stamped_def rearmed_line_def)

lemma fires_rearmed_line: "fires 2000 rearmed_line"
  by (simp add: fires_def rearmed_line_def)

lemma timerFires_rearmed_line:
  "notified (timerFires 2000 rearmed_line) = [''line'', ''line'']"
  by (simp add: timerFires_def fires_def holdCallback_def Let_def rearmed_line_def
        recognizeShape_stamped [of _ 701] store_def)

lemma after_up_snoc: "after_up = (Event 700 (Up ()) # late_moves) @ [Tick 2000]"
  by (simp add: after_up_def)

lemma run_after_up: "notified (run after_up held_line) = [''line'', ''line'']"
  by (simp only: after_up_snoc run_snoc_tick run_late_moves timerFires_rearmed_line)

lemma attempts_after_up: "attempts after_up held_line = 1"
proof -
  have "attempts (Event 700 (Up ()) # late_moves) held_line = 0"
    by (simp add: late_moves_def)
  then have "attempts after_up held_line = 0 + (if fires 2000 rearmed_line then 1 else 0)"
    by (simp only: after_up_snoc attempts_snoc_tick run_late_moves)
  then show ?thesis by (simp add: fires_rearmed_line)
qed

lemma isCircleStatic_eq: "isCircleStatic pts = isCircle pts"
  by (simp add: isCircleStatic_def isCircle_def)

lemma isRectangleStatic_eq: "isRectangleStatic pts = isRectangle pts"
  by (simp add: isRectangleStatic_def isRectangle_def)

lemma isLine_eq_static:
  assumes "5 \<le> length pts" "15 \<le> chord pts"
  shows "isLine pts = Inr (isLineStatic pts)"
proof -
  from assms(1) obtain p ps where pts: "pts = p # ps" by (cases pts) auto
  have "chord pts = sqrt ((x (last pts) - x (hd pts)) * (x (last pts) - x (hd pts))
                          + (y (last pts) - y (hd pts)) * (y (last pts) - y (hd pts)))"
    by (simp add: chord_def power2_eq_square)
  with assms show ?thesis
    by (simp add: isLine_def isLineStatic_def Let_def pts)
qed

lemma length_ptsWithTime: "length (ptsWithTime clock vs) = length vs"
  by (simp add: ptsWithTime_def)

lemma console_agrees_on_long_chords:
  assumes "10 \<le> length vs" "15 \<le> chord (ptsWithTime clock vs)"
  shows "detectShape (ptsWithTime clock vs) = Inr (recognizeShapeFromPoints None clock vs)"
proof -
  have "5 \<le> length (ptsWithTime clock vs)" using assms(1) by (simp add: length_ptsWithTime)
  then have "isLine (ptsWithTime clock vs) = Inr (isLineStatic (ptsWithTime clock vs))"
    using assms(2) by (rule isLine_eq_static)
  with assms(1) show ?thesis
    by (simp add: detectShape_def recognizeShapeFromPoints_def static_fallback_def Let_def
          line_or_null_def length_ptsWithTime isCircleStatic_eq isRectangleStatic_eq)
qed

lemma isLineStatic_sound:
  assumes "isLineStatic pts"
  shows "5 \<le> length pts \<and> 15 \<le> chord pts
         \<and> totalDeviation (hd pts) (x (last pts) - x (hd pts)) (y (last pts) - y (hd pts)) (chord pts) pts
             / real_of_int (max 1 (int (length pts) - 2)) < 7"
  using assms
  by (auto simp: isLineStatic_def chord_def Let_def power2_eq_square split: if_splits)

section \<open>The claims\<close>

subsection \<open>C1: a failed classification and the stored shape\<close>

text \<open>
  Claim C1 as stated: when a classification attempt on at least 10 points gets \<^verbatim>\<open>null\<close>
  from the external adapter and from the built-in fallback, the stored shape is left as
  it was. The module does otherwise: the \<^verbatim>\<open>else\<close> branch of \<^verbatim>\<open>recognizeShape\<close> assigns
  \<^verbatim>\<open>null\<close>. On the instance \<open>held_bump\<close>, which holds an earlier line, the adapter answers
  \<^verbatim>\<open>null\<close>, the built-in detector answers \<^verbatim>\<open>null\<close>, and the accessor no longer returns
  the earlier line.
\<close>

theorem C1_counterexample:
  "10 \<le> length (points held_bump)
   \<and> externalRecognizer held_bump = Some null_adapter
   \<and> recognize null_adapter = Some answers_null
   \<and> answers_null (points held_bump) = Returns None
   \<and> detectShape (points held_bump) = Inr None
   \<and> getRecognizedShape held_bump = Some earlier_line
   \<and> recognizeShape held_bump = Inr (held_bump\<lparr>recognizedShape := None\<rparr>)
   \<and> getRecognizedShape (held_bump\<lparr>recognizedShape := None\<rparr>) \<noteq> getRecognizedShape held_bump"
proof -
  have p: "points held_bump = bump" by (simp add: held_bump_def)
  have "recognizeShape held_bump = Inr (held_bump\<lparr>recognizedShape := None\<rparr>)"
    by (simp add: recognizeShape_def external_attempt_held_bump internal_fallback_def p
          detectShape_bump) (simp add: bump_def)
  then show ?thesis
    by (simp add: p detectShape_bump getRecognizedShape_def answers_null_def)
       (simp add: held_bump_def null_adapter_def bump_def)
qed

text \<open>
  Claim C1, amended: on at least 10 points, when the external attempt does not return
  (no adapter, a falsy answer, or an exception that is caught) and the built-in detector
  answers \<^verbatim>\<open>null\<close>, \<^verbatim>\<open>recognizeShape\<close> resets the stored shape to \<^verbatim>\<open>null\<close> and changes
  nothing else, so that the accessor returns \<^verbatim>\<open>null\<close> afterwards. Leaving the stored shape
  untouched is the behaviour of the earlier revision only, whose \<^verbatim>\<open>recognizeShape\<close> returns
  the instance unchanged when its detector answers \<^verbatim>\<open>null\<close>.
\<close>

theorem C1_null_result_clears_shape:
  assumes "10 \<le> length (points s)"
  shows "(external_attempt s = None \<and> detectShape (points s) = Inr None \<longrightarrow>
            recognizeShape s = Inr (s\<lparr>recognizedShape := None\<rparr>)
            \<and> getRecognizedShape (s\<lparr>recognizedShape := None\<rparr>) = None)
       \<and> (detectShape0 (points s) = None \<longrightarrow> recognizeShape0 s = Inr s)"
  using assms
  by (simp add: recognizeShape_def internal_fallback_def recognizeShape0_def getRecognizedShape_def)

theorem C1_witness:
  "recognizeShape held_bump = Inr (held_bump\<lparr>recognizedShape := None\<rparr>)
   \<and> getRecognizedShape (held_bump\<lparr>recognizedShape := None\<rparr>) = None
   \<and> recognizeShape0 held_bump = Inr held_bump"
proof -
  have p: "points held_bump = bump" by (simp add: held_bump_def)
  have l: "10 \<le> length (points held_bump)" by (simp add: p) (simp add: bump_def)
  show ?thesis
    using C1_null_result_clears_shape [OF l]
    by (simp add: external_attempt_held_bump) (simp add: p detectShape_bump detectShape0_bump)
qed

subsection \<open>C2: events pass through\<close>

text \<open>
  Claim C2: \<^verbatim>\<open>chainIn\<close> returns an event equal to the one it was given, whatever the
  kind of the event, the buffer, the hold state and the time. (The returned object is the
  copy made by \<^verbatim>\<open>BB.copyObj\<close>, which no branch modifies.)
\<close>

theorem C2_chainIn_forwards_event: "snd (chainIn now e s) = e"
  by (cases e) (simp_all add: chainIn_def copyObj_def Let_def)

subsection \<open>C3: fewer than 10 points\<close>

text \<open>
  Claim C3: on fewer than 10 points the built-in detector answers \<^verbatim>\<open>null\<close>; the
  timer-triggered \<^verbatim>\<open>recognizeShape\<close> returns the instance as it is, so that the timer
  function only sets the holding flag; and the console entry point answers \<^verbatim>\<open>null\<close>,
  whatever module the environment offers.
\<close>

theorem C3_short_sequences_unclassified:
  "(length pts < 10 \<longrightarrow> detectShape pts = Inr None)
   \<and> (length (points s) < 10 \<longrightarrow>
        recognizeShape s = Inr s \<and> holdCallback s = s\<lparr>isHolding := True\<rparr>)
   \<and> (length vs < 10 \<longrightarrow> recognizeShapeFromPoints found clock vs = None)"
  by (simp add: detectShape_def recognizeShape_def holdCallback_def recognizeShapeFromPoints_def)

theorem C3_witness:
  "detectShape [pt 3 4] = Inr None
   \<and> recognizeShape parked = Inr parked
   \<and> holdCallback parked = parked\<lparr>isHolding := True\<rparr>
   \<and> recognizeShapeFromPoints None clock0 [\<lparr>x = 3, y = 4\<rparr>] = None"
  using C3_short_sequences_unclassified [of "[pt 3 4]" parked "[\<lparr>x = 3, y = 4\<rparr>]" None clock0]
  by (simp add: parked_def new_engine_def)

subsection \<open>C4: elongated bounding boxes\<close>

text \<open>
  Claim C4: when the bounding-box aspect is above 5 or below 0.2, the answer of the
  built-in detector is decided by the length gate and the line test alone: \<^verbatim>\<open>'line'\<close> when
  there are at least 10 points and \<^verbatim>\<open>isLine\<close> accepts, \<^verbatim>\<open>null\<close> otherwise. Neither the
  circle test nor the rectangle test takes part.
\<close>

theorem C4_elongated_only_line:
  assumes "aspect_gt (bbox_aspect pts) 5 \<or> aspect_lt (bbox_aspect pts) 0.2"
  shows "detectShape pts =
           Inr (if 10 \<le> length pts \<and> isLine pts = Inr True then Some ''line'' else None)"
proof (cases "length pts < 10")
  case True
  then show ?thesis by (simp add: detectShape_def)
next
  case False
  then have "pts \<noteq> []" by auto
  then obtain b where "isLine pts = Inr b" using isLine_nonempty by blast
  with assms False show ?thesis by (simp add: detectShape_def Let_def line_or_null_def)
qed

theorem C4_witness:
  "aspect_lt (bbox_aspect vline) 0.2 \<and> detectShape vline = Inr (Some ''line'')
   \<and> aspect_gt (bbox_aspect bump) 5 \<and> detectShape bump = Inr None"
  using C4_elongated_only_line [of vline] C4_elongated_only_line [of bump]
  by (simp add: bbox_aspect_bump isLine_bump bbox_aspect_vline isLine_vline)
     (simp add: bump_def vline_def)

subsection \<open>C5: the chord gate of the line test\<close>

text \<open>
  Claim C5 says that the line test accepts only chords of length at least 15. The static
  helper \<^verbatim>\<open>isLineStatic\<close> has that gate (\<open>isLineStatic_sound\<close>); the instance method
  \<^verbatim>\<open>isLine\<close> has lost it. On \<open>flick\<close>, ten samples along a chord of length 9, the
  instance method accepts and the built-in detector answers \<^verbatim>\<open>'line'\<close>, where the static
  helper refuses.
\<close>

theorem C5_instance_line_test_lacks_chord_gate:
  "chord flick = 9 \<and> isLine flick = Inr True \<and> detectShape flick = Inr (Some ''line'')
   \<and> \<not> isLineStatic flick"
proof -
  have c: "chord flick = 9" by (simp add: chord_def flick_def pt_def)
  have l: "isLine flick = Inr True"
    by (simp add: isLine_def totalDeviation_def flick_def pt_def Let_def)
  have a: "bbox_aspect flick = Infinity"
    by (simp add: bbox_aspect_def flick_def pt_def Let_def)
  have d: "detectShape flick = Inr (Some ''line'')"
    by (simp add: detectShape_def a l line_or_null_def) (simp add: flick_def)
  have s: "\<not> isLineStatic flick"
    by (simp add: isLineStatic_def flick_def pt_def Let_def)
  from c l d s show ?thesis by simp
qed

subsection \<open>C6: parameter extraction\<close>

text \<open>
  Claim C6: on a non-empty point sequence \<^verbatim>\<open>getShapeParams\<close> returns, for a line, the
  first point and the last point; for a rectangle, the least and greatest \<open>x\<close> and \<open>y\<close>
  over all points; for a circle, the square from the centroid minus the average radius to
  the centroid plus the average radius, on both axes.
\<close>

theorem C6_getShapeParams_extraction:
  assumes "pts \<noteq> []"
  shows "getShapeParams ''line'' pts =
           Inr \<lparr>x1 = x (hd pts), y1 = y (hd pts), x2 = x (last pts), y2 = y (last pts)\<rparr>
       \<and> getShapeParams ''rectangle'' pts =
           Inr \<lparr>x1 = Min (x ` set pts), y1 = Min (y ` set pts),
                x2 = Max (x ` set pts), y2 = Max (y ` set pts)\<rparr>
       \<and> getShapeParams ''circle'' pts =
           Inr \<lparr>x1 = centroid_x pts - avg_radius pts, y1 = centroid_y pts - avg_radius pts,
                x2 = centroid_x pts + avg_radius pts, y2 = centroid_y pts + avg_radius pts\<rparr>"
  using assms
  by (simp only: getShapeParams_line getShapeParams_rectangle getShapeParams_circle simp_thms)

theorem C6_witness:
  "getShapeParams ''line'' pair = Inr \<lparr>x1 = 3, y1 = 4, x2 = - 3, y2 = - 4\<rparr>
   \<and> getShapeParams ''rectangle'' pair = Inr \<lparr>x1 = - 3, y1 = - 4, x2 = 3, y2 = 4\<rparr>
   \<and> getShapeParams ''circle'' pair = Inr \<lparr>x1 = - 5, y1 = - 5, x2 = 5, y2 = 5\<rparr>"
  using C6_getShapeParams_extraction [of pair]
  by (simp add: pair_def pt_def centroid_x_def centroid_y_def avg_radius_def mean_def)

subsection \<open>C7: the capacity of the buffer\<close>

text \<open>
  Claim C7: whatever the inputs, from a buffer of at most 200 points (the empty buffer of
  a new instance in particular) the buffer never grows beyond 200 points. After a down
  event followed by any inputs that neither begin nor end a stroke, the buffer holds the
  most recent 200 of the samples appended since that down event (the sample of the down
  event first, then those of the moves), in the order of their arrival, and exactly 200
  of them as soon as more than 200 have been appended.
\<close>

theorem C7_buffer_capacity:
  assumes "\<forall>i\<in>set is. within_stroke i"
  shows "(length (points s0) \<le> 200 \<longrightarrow> length (points (run js s0)) \<le> 200)
       \<and> length (points (run js new_engine)) \<le> 200
       \<and> points (run (Event now (Down ex ey a) # is) s) =
           most_recent 200 (\<lparr>x = ex, y = ey, time = now\<rparr> # samples is)
       \<and> (200 < length (\<lparr>x = ex, y = ey, time = now\<rparr> # samples is) \<longrightarrow>
            length (points (run (Event now (Down ex ey a) # is) s)) = 200)"
proof -
  let ?s1 = "step (Event now (Down ex ey a)) s"
  have p1: "points ?s1 = [\<lparr>x = ex, y = ey, time = now\<rparr>]"
    by (simp add: chainIn_def copyObj_def)
  then have "length (points ?s1) \<le> 200" by simp
  with assms have "points (run is ?s1) = most_recent 200 (points ?s1 @ samples is)"
    by (rule run_points)
  then have b: "points (run (Event now (Down ex ey a) # is) s) =
                  most_recent 200 (\<lparr>x = ex, y = ey, time = now\<rparr> # samples is)"
    by (simp only: run.simps p1 append_Cons append_Nil)
  have c: "length (points (run (Event now (Down ex ey a) # is) s)) = 200"
    if "200 < length (\<lparr>x = ex, y = ey, time = now\<rparr> # samples is)"
    using that by (simp only: b) (simp add: most_recent_def)
  have "length (points (run js new_engine)) \<le> 200"
    by (rule run_bounded) (simp add: new_engine_def)
  with b c show ?thesis by (simp add: run_bounded)
qed

theorem C7_witness:
  "length (points (run long_moves new_engine)) \<le> 200
   \<and> length (\<lparr>x = 5, y = 5, time = 0\<rparr> # samples long_moves) = 202
   \<and> points (run (Event 0 (Down 5 5 ()) # long_moves) new_engine) = map sample_at [2..<202]"
proof -
  have w: "\<forall>i\<in>set long_moves. within_stroke i"
    by (auto simp: long_moves_def move_at_def)
  note t = C7_buffer_capacity [OF w, of new_engine long_moves 0 5 5 "()" new_engine]
  have 1: "length (points (run long_moves new_engine)) \<le> 200"
    using t by (rule conjunct2 [THEN conjunct1])
  have "points (run (Event 0 (Down 5 5 ()) # long_moves) new_engine) =
          most_recent 200 (\<lparr>x = 5, y = 5, time = 0\<rparr> # samples long_moves)"
    using t by (rule conjunct2 [THEN conjunct2, THEN conjunct1])
  then have 2: "points (run (Event 0 (Down 5 5 ()) # long_moves) new_engine) = map sample_at [2..<202]"
    by (simp only: samples_long_moves tail_long)
  have 3: "length (\<lparr>x = 5, y = 5, time = 0\<rparr> # samples long_moves) = 202"
    by (simp add: samples_long_moves del: upt_rec_numeral)
  from 1 2 3 show ?thesis by (simp only: simp_thms)
qed

subsection \<open>C8: one attempt per stroke\<close>

text \<open>
  Claim C8 as stated: once the timer has run within a stroke, no move rearms the timer
  and no further classification is attempted until the next stroke begins with a down
  event. That holds up to the up event and no further: the up event clears the holding
  flag, and a move that follows it with no down event in between arms the timer again.
  In \<open>line_stroke\<close> the timer runs once and a line is notified; \<open>after_up\<close> holds no down
  event, yet its first move arms a timer due at 1201, the timer function runs a second
  time, and a second line is notified.
\<close>

theorem C8_counterexample:
  "isHolding (run line_stroke new_engine)
   \<and> holdTimeout (run line_stroke new_engine) = None
   \<and> attempts line_stroke new_engine = 1
   \<and> notified (run line_stroke new_engine) = [''line'']
   \<and> \<not> list_ex is_down after_up
   \<and> holdTimeout (run (take 2 after_up) (run line_stroke new_engine)) = Some 1201
   \<and> attempts after_up (run line_stroke new_engine) = 1
   \<and> attempts (line_stroke @ after_up) new_engine = 2
   \<and> notified (run after_up (run line_stroke new_engine)) = [''line'', ''line'']"
proof -
  have "\<not> list_ex is_down after_up" by (simp add: after_up_def late_moves_def)
  moreover have "attempts (line_stroke @ after_up) new_engine = 2"
    by (simp add: attempts_append run_line_stroke attempts_line_stroke attempts_after_up)
  ultimately show ?thesis
    by (simp add: run_line_stroke attempts_line_stroke rearmed run_after_up attempts_after_up)
       (simp add: held_line_def)
qed

text \<open>
  Claim C8, amended: a timer that runs leaves the instance holding, with no timer pending.
  From such a state, inputs that neither begin nor end a stroke keep it so: every move
  still appends its sample to the buffer of capacity 200, no timer is armed, the timer
  function is never run again, and the stored shape and the notifications stay as they
  were. Counted from a down event, the timer function, and with it \<^verbatim>\<open>recognizeShape\<close>, is
  run at most once up to the up event that ends the stroke, and not at all after it while
  only timer ticks arrive. The up event clears the holding flag: a move that follows it
  with no down event in between finds the instance not holding and arms the timer, due
  500 ms later.
\<close>

theorem C8_single_attempt_per_stroke:
  assumes "\<forall>i\<in>set is. within_stroke i" and "\<forall>i\<in>set ts. is_tick i"
  shows "(fires now s1 \<longrightarrow>
            isHolding (timerFires now s1) \<and> holdTimeout (timerFires now s1) = None)
       \<and> (isHolding s \<and> holdTimeout s = None \<and> length (points s) \<le> 200 \<longrightarrow>
            isHolding (run is s) \<and> holdTimeout (run is s) = None
            \<and> points (run is s) = most_recent 200 (points s @ samples is)
            \<and> attempts is s = 0
            \<and> recognizedShape (run is s) = recognizedShape s
            \<and> notified (run is s) = notified s)
       \<and> attempts (Event t (Down ex ey a) # is) s0 \<le> 1
       \<and> attempts (Event t (Down ex ey a) # is @ Event t' (Up a') # ts) s0 \<le> 1
       \<and> \<not> isHolding (run [Event t' (Up a'), Event t2 (Move mx my a2)] s2)
       \<and> holdTimeout (run [Event t' (Up a'), Event t2 (Move mx my a2)] s2)
           = Some (t2 + holdThreshold)"
proof -
  have a: "isHolding (timerFires now s1) \<and> holdTimeout (timerFires now s1) = None"
    if "fires now s1"
    using timerFires_holding [OF that] by (simp add: holding_def)
  have b: "isHolding (run is s) \<and> holdTimeout (run is s) = None
            \<and> points (run is s) = most_recent 200 (points s @ samples is)
            \<and> attempts is s = 0
            \<and> recognizedShape (run is s) = recognizedShape s
            \<and> notified (run is s) = notified s"
    if h: "isHolding s \<and> holdTimeout s = None \<and> length (points s) \<le> 200"
  proof -
    from h have "holding s" by (simp add: holding_def)
    with assms(1) have "holding (run is s) \<and> recognizedShape (run is s) = recognizedShape s
         \<and> notified (run is s) = notified s \<and> attempts is s = 0"
      by (rule run_holding)
    moreover from assms(1) h have "points (run is s) = most_recent 200 (points s @ samples is)"
      by (simp add: run_points)
    ultimately show ?thesis by (simp add: holding_def)
  qed
  let ?s1 = "step (Event t (Down ex ey a)) s0"
  have one: "attempts is ?s1 \<le> 1"
    using assms(1) by (rule attempts_le_one)
  then have c: "attempts (Event t (Down ex ey a) # is) s0 \<le> 1" by simp
  have "attempts ts (step (Event t' (Up a')) (run is ?s1)) = 0"
    using assms(2) up_idle by (rule idle_ticks [THEN conjunct1])
  then have "attempts (is @ Event t' (Up a') # ts) ?s1 = attempts is ?s1"
    by (simp add: attempts_append)
  with one have d: "attempts (Event t (Down ex ey a) # is @ Event t' (Up a') # ts) s0 \<le> 1"
    by simp
  have e: "\<not> isHolding (run [Event t' (Up a'), Event t2 (Move mx my a2)] s2)
       \<and> holdTimeout (run [Event t' (Up a'), Event t2 (Move mx my a2)] s2)
           = Some (t2 + holdThreshold)"
    by (simp add: chainIn_def copyObj_def Let_def)
  from a b c d e show ?thesis by blast
qed

theorem C8_witness:
  "isHolding (timerFires 600 armed) \<and> holdTimeout (timerFires 600 armed) = None
   \<and> isHolding (run nudges parked) \<and> holdTimeout (run nudges parked) = None
   \<and> points (run nudges parked) = [pt 1 1, \<lparr>x = 2, y = 2, time = 7\<rparr>, \<lparr>x = 3, y = 3, time = 8\<rparr>]
   \<and> attempts nudges parked = 0
   \<and> attempts (Event 0 (Down 0 0 ()) # nudges) new_engine = 1
   \<and> attempts (Event 0 (Down 0 0 ()) # nudges @ Event 10000 (Up ()) # late_ticks) new_engine \<le> 1
   \<and> \<not> isHolding (run [Event 10000 (Up ()), Event 10001 (Move 4 4 ())] parked)
   \<and> holdTimeout (run [Event 10000 (Up ()), Event 10001 (Move 4 4 ())] parked) = Some 10501"
proof -
  have w: "\<forall>i\<in>set nudges. within_stroke i"
    by (simp add: nudges_def)
  have k: "\<forall>i\<in>set late_ticks. is_tick i"
    by (simp add: late_ticks_def)
  have f: "fires 600 armed" by (simp add: fires_def armed_def)
  have h: "isHolding parked \<and> holdTimeout parked = None \<and> length (points parked) \<le> 200"
    by (simp add: parked_def new_engine_def)
  have e: "attempts (Event 0 (Down 0 0 ()) # nudges) new_engine = 1"
    by (simp add: nudges_def new_engine_def chainIn_def copyObj_def Let_def fires_def
          timerFires_def holdCallback_def recognizeShape_def holdThreshold_def)
  note t = C8_single_attempt_per_stroke
    [OF w k, of 600 armed parked 0 0 0 "()" new_engine 10000 "()" 10001 4 4 "()" parked]
  have 1: "isHolding (timerFires 600 armed) \<and> holdTimeout (timerFires 600 armed) = None"
    using t f by blast
  have 2: "isHolding (run nudges parked) \<and> holdTimeout (run nudges parked) = None
            \<and> points (run nudges parked) = most_recent 200 (points parked @ samples nudges)
            \<and> attempts nudges parked = 0"
    using t h by blast
  have 3: "most_recent 200 (points parked @ samples nudges) =
             [pt 1 1, \<lparr>x = 2, y = 2, time = 7\<rparr>, \<lparr>x = 3, y = 3, time = 8\<rparr>]"
    by (simp add: most_recent_def samples_def nudges_def parked_def new_engine_def)
  have 4: "attempts (Event 0 (Down 0 0 ()) # nudges @ Event 10000 (Up ()) # late_ticks) new_engine \<le> 1"
    using t by blast
  have 5: "\<not> isHolding (run [Event 10000 (Up ()), Event 10001 (Move 4 4 ())] parked)
       \<and> holdTimeout (run [Event 10000 (Up ()), Event 10001 (Move 4 4 ())] parked)
           = Some (10001 + holdThreshold)"
    using t by blast
  have 6: "10001 + holdThreshold = 10501" by (simp add: holdThreshold_def)
  from 1 2 3 4 5 6 e show ?thesis by (simp only: simp_thms)
qed

subsection \<open>C9: the console entry point and the instance detector\<close>

text \<open>
  Claim C9 says that, with no external module, \<^verbatim>\<open>recognizeShapeFromPoints\<close> and
  \<^verbatim>\<open>detectShape\<close> agree on every list of at least 10 points. They differ where the chord is
  shorter than 15, for want of the same gate as in C5: on \<open>still\<close>, ten samples at one
  position, the console entry point answers \<^verbatim>\<open>null\<close> and the instance detector
  \<^verbatim>\<open>'line'\<close>. On chords of length at least 15 the two agree
  (\<open>console_agrees_on_long_chords\<close>).
\<close>

theorem C9_console_and_instance_differ:
  "10 \<le> length still
   \<and> recognizeShapeFromPoints None clock0 still = None
   \<and> detectShape (ptsWithTime clock0 still) = Inr (Some ''line'')"
proof -
  have p: "ptsWithTime clock0 still = [pt 0 0, pt 0 0, pt 0 0, pt 0 0, pt 0 0,
                                       pt 0 0, pt 0 0, pt 0 0, pt 0 0, pt 0 0]"
    by (simp add: ptsWithTime_def still_def clock0_def pt_def enumerate_eq_zip upt_rec)
  have a: "bbox_aspect (ptsWithTime clock0 still) = Infinity"
    by (simp add: p bbox_aspect_def pt_def Let_def)
  have l: "isLine (ptsWithTime clock0 still) = Inr True"
    by (simp add: p isLine_def totalDeviation_def pt_def Let_def)
  have s: "\<not> isLineStatic (ptsWithTime clock0 still)"
    by (simp add: p isLineStatic_def pt_def Let_def)
  have n: "10 \<le> length still" by (simp add: still_def)
  have len: "\<not> length (ptsWithTime clock0 still) < 10" by (simp add: p)
  have "detectShape (ptsWithTime clock0 still) = Inr (Some ''line'')"
    by (simp add: detectShape_def a l line_or_null_def len)
  moreover have "recognizeShapeFromPoints None clock0 still = None"
    using n by (simp add: recognizeShapeFromPoints_def static_fallback_def a s)
  ultimately show ?thesis using n by simp
qed

subsection \<open>C10: parameter extraction is always defined on the built-in path\<close>

text \<open>
  Claim C10: whenever the built-in detector answers a tag, the tag is one of
  \<^verbatim>\<open>'circle'\<close>, \<^verbatim>\<open>'rectangle'\<close>, \<^verbatim>\<open>'line'\<close>, there are at least 10 points, and
  \<^verbatim>\<open>getShapeParams\<close> on that tag and those points returns parameters: it neither reads
  past the array, nor divides by zero, nor throws for an unknown type. The detector
  itself never throws, and so the internal fallback of \<^verbatim>\<open>recognizeShape\<close> always
  completes.
\<close>

theorem C10_getShapeParams_well_defined:
  "(detectShape pts = Inr (Some t) \<longrightarrow>
      t \<in> {''circle'', ''rectangle'', ''line''} \<and> 10 \<le> length pts
      \<and> (\<exists>p. getShapeParams t pts = Inr p))
   \<and> (\<exists>r. detectShape pts = Inr r)
   \<and> (\<exists>s'. internal_fallback s = Inr s')"
proof -
  have a: "t \<in> {''circle'', ''rectangle'', ''line''} \<and> 10 \<le> length pts
           \<and> (\<exists>p. getShapeParams t pts = Inr p)"
    if "detectShape pts = Inr (Some t)" for pts t
  proof -
    from that have h: "t \<in> {''circle'', ''rectangle'', ''line''} \<and> 10 \<le> length pts"
      by (rule detectShape_Some)
    then have "pts \<noteq> []" by auto
    with h show ?thesis using getShapeParams_ok [of t pts] by blast
  qed
  have c: "\<exists>s'. internal_fallback s = Inr s'"
  proof -
    obtain r where r: "detectShape (points s) = Inr r" using detectShape_total by blast
    show ?thesis
    proof (cases r)
      case None
      with r show ?thesis by (simp add: internal_fallback_def)
    next
      case (Some t)
      with r a obtain p where "getShapeParams t (points s) = Inr p" by blast
      with r Some show ?thesis by (simp add: internal_fallback_def)
    qed
  qed
  from a c detectShape_total show ?thesis by blast
qed

theorem C10_witness:
  "detectShape hline = Inr (Some ''line'') \<and> 10 \<le> length hline
   \<and> getShapeParams ''line'' hline = Inr \<lparr>x1 = 0, y1 = 0, x2 = 90, y2 = 0\<rparr>"
  using C10_getShapeParams_well_defined [of hline "''line''"]
  by (simp add: detectShape_hline) (simp add: hline_def pt_def getShapeParams_def)

end
